theory Spec2Isabelle
  imports Complex_Main "HOL-Library.AList"
begin

section \<open>Strings\<close>

text \<open>
  Message texts are modelled as lists of code units below 256 (the Latin-1 range), which
  covers every keyword and every numeric token of the service.  \<open>toLowerCase\<close> maps the
  capital letters of that range (A-Z, and U+00C0-U+00DE except the multiplication sign)
  to their small letters, as \<^verbatim>\<open>String.prototype.toLowerCase\<close> does there.
\<close>

definition toLowerCase_char :: "char \<Rightarrow> char" where
  "toLowerCase_char c =
     (let n = (of_char c :: nat)
      in if (65 \<le> n \<and> n \<le> 90) \<or> (192 \<le> n \<and> n \<le> 222 \<and> n \<noteq> 215)
         then char_of (n + 32) else c)"

definition toLowerCase :: "string \<Rightarrow> string" where
  "toLowerCase s = map toLowerCase_char s"

definition startsWith :: "string \<Rightarrow> string \<Rightarrow> bool" where
  "startsWith s k = (take (length k) s = k)"

text \<open>\<^verbatim>\<open>text.includes(keyword)\<close>: the keyword occurs at some position of the text.\<close>

fun includes_str :: "string \<Rightarrow> string \<Rightarrow> bool" where
  "includes_str [] k = (k = [])"
| "includes_str (c # cs) k = (startsWith (c # cs) k \<or> includes_str cs k)"

text \<open>\<^verbatim>\<open>containsAny(text, keywords) { return keywords.some(k => text.includes(k)) }\<close>\<close>

definition containsAny :: "string \<Rightarrow> string list \<Rightarrow> bool" where
  "containsAny text keywords = list_ex (\<lambda>keyword. includes_str text keyword) keywords"

section \<open>Numbers\<close>

text \<open>
  A JavaScript number is an IEEE-754 binary64 value.  The model keeps what the control
  flow of the service can observe of it: the special values \<open>Infinity\<close>, \<open>-Infinity\<close>
  and \<open>NaN\<close>, and the exponent range (a result whose magnitude is at least
  \<open>2^1024 - 2^970\<close> overflows to an infinity, one whose magnitude is at most \<open>2^-1075\<close>
  underflows to zero).  Inside that range the value is kept as an exact real: the
  rounding of the 53-bit significand is not modelled, and neither is the sign of zero
  (every divisor of the service is a non-negative quantity, so a zero divisor is \<open>+0\<close>).
\<close>

datatype jsnum = Fin real | PosInf | NegInf | NaN

definition MAX_LIMIT :: real where
  "MAX_LIMIT = 2 ^ 1024 - 2 ^ 970"

definition MIN_LIMIT :: real where
  "MIN_LIMIT = 1 / 2 ^ 1075"

definition norm64 :: "real \<Rightarrow> jsnum" where
  "norm64 x =
     (if MAX_LIMIT \<le> \<bar>x\<bar> then (if 0 < x then PosInf else NegInf)
      else if \<bar>x\<bar> \<le> MIN_LIMIT then Fin 0
      else Fin x)"

fun jneg :: "jsnum \<Rightarrow> jsnum" where
  "jneg (Fin a) = Fin (- a)"
| "jneg PosInf = NegInf"
| "jneg NegInf = PosInf"
| "jneg NaN = NaN"

fun jadd :: "jsnum \<Rightarrow> jsnum \<Rightarrow> jsnum" where
  "jadd (Fin a) (Fin b) = norm64 (a + b)"
| "jadd NaN _ = NaN"
| "jadd _ NaN = NaN"
| "jadd PosInf NegInf = NaN"
| "jadd NegInf PosInf = NaN"
| "jadd PosInf _ = PosInf"
| "jadd NegInf _ = NegInf"
| "jadd _ PosInf = PosInf"
| "jadd _ NegInf = NegInf"

definition jsub :: "jsnum \<Rightarrow> jsnum \<Rightarrow> jsnum" where
  "jsub x y = jadd x (jneg y)"

text \<open>The sign of a product or quotient with an infinite or zero operand.\<close>

definition signed_inf :: "bool \<Rightarrow> jsnum" where
  "signed_inf positive = (if positive then PosInf else NegInf)"

fun jmul :: "jsnum \<Rightarrow> jsnum \<Rightarrow> jsnum" where
  "jmul (Fin a) (Fin b) = norm64 (a * b)"
| "jmul NaN _ = NaN"
| "jmul _ NaN = NaN"
| "jmul (Fin a) PosInf = (if a = 0 then NaN else signed_inf (0 < a))"
| "jmul (Fin a) NegInf = (if a = 0 then NaN else signed_inf (a < 0))"
| "jmul PosInf (Fin b) = (if b = 0 then NaN else signed_inf (0 < b))"
| "jmul NegInf (Fin b) = (if b = 0 then NaN else signed_inf (b < 0))"
| "jmul PosInf PosInf = PosInf"
| "jmul NegInf NegInf = PosInf"
| "jmul PosInf NegInf = NegInf"
| "jmul NegInf PosInf = NegInf"

fun jdiv :: "jsnum \<Rightarrow> jsnum \<Rightarrow> jsnum" where
  "jdiv (Fin a) (Fin b) =
     (if b = 0 then (if a = 0 then NaN else signed_inf (0 < a)) else norm64 (a / b))"
| "jdiv NaN _ = NaN"
| "jdiv _ NaN = NaN"
| "jdiv (Fin a) PosInf = Fin 0"
| "jdiv (Fin a) NegInf = Fin 0"
| "jdiv PosInf (Fin b) = signed_inf (0 \<le> b)"
| "jdiv NegInf (Fin b) = signed_inf (b < 0)"
| "jdiv PosInf PosInf = NaN"
| "jdiv PosInf NegInf = NaN"
| "jdiv NegInf PosInf = NaN"
| "jdiv NegInf NegInf = NaN"

text \<open>Comparisons: every comparison with \<open>NaN\<close> is false.\<close>

fun jlt :: "jsnum \<Rightarrow> jsnum \<Rightarrow> bool" where
  "jlt (Fin a) (Fin b) = (a < b)"
| "jlt NaN _ = False"
| "jlt _ NaN = False"
| "jlt NegInf NegInf = False"
| "jlt NegInf _ = True"
| "jlt PosInf _ = False"
| "jlt (Fin a) PosInf = True"
| "jlt (Fin a) NegInf = False"

definition jgt :: "jsnum \<Rightarrow> jsnum \<Rightarrow> bool" where
  "jgt x y = jlt y x"


text \<open>Truthiness of a number, as \<^verbatim>\<open>||\<close> and \<^verbatim>\<open>?:\<close> test it: zero and \<open>NaN\<close> are falsy.\<close>

fun truthy :: "jsnum \<Rightarrow> bool" where
  "truthy (Fin a) = (a \<noteq> 0)"
| "truthy NaN = False"
| "truthy _ = True"

text \<open>\<^verbatim>\<open>Math.round\<close>: the nearest integer, a tie going towards \<open>+Infinity\<close>.\<close>

fun Math_round :: "jsnum \<Rightarrow> jsnum" where
  "Math_round (Fin a) = Fin (of_int \<lfloor>a + 1 / 2\<rfloor>)"
| "Math_round x = x"

text \<open>
  \<^verbatim>\<open>Math.pow(x, n)\<close> for a non-negative integer exponent, the only use the service makes
  of it (\<open>numPayments = 360\<close>).
\<close>

fun Math_pow :: "jsnum \<Rightarrow> nat \<Rightarrow> jsnum" where
  "Math_pow x 0 = Fin 1"
| "Math_pow (Fin a) n = norm64 (a ^ n)"
| "Math_pow PosInf n = PosInf"
| "Math_pow NegInf n = (if even n then PosInf else NegInf)"
| "Math_pow NaN n = NaN"

text \<open>The idiom \<^verbatim>\<open>Math.round(x * 100) / 100\<close> that rounds an amount to cents.\<close>

definition round_cents :: "jsnum \<Rightarrow> jsnum" where
  "round_cents x = jdiv (Math_round (jmul x (Fin 100))) (Fin 100)"

section \<open>The numeric extractor\<close>

definition is_digit :: "char \<Rightarrow> bool" where
  "is_digit c = (48 \<le> (of_char c :: nat) \<and> (of_char c :: nat) \<le> 57)"

text \<open>
  The pattern is \<^verbatim>\<open>/\d+(?:,\d{3})*(?:\.\d+)?/g\<close>.  Every quantifier is greedy and
  everything after \<^verbatim>\<open>\d+\<close> is optional, so the first alternative the matcher tries
  always succeeds and no backtracking happens: the match is the longest run of digits,
  then as many groups of a comma and exactly three digits as follow, then a dot with
  the longest non-empty run of digits if one follows.
\<close>

text \<open>\<^verbatim>\<open>(?:,\d{3})*\<close>: the matched groups and the rest of the text.\<close>

fun comma_groups :: "string \<Rightarrow> string \<times> string" where
  "comma_groups (c # d1 # d2 # d3 # rest) =
     (if c = CHR '','' \<and> is_digit d1 \<and> is_digit d2 \<and> is_digit d3
      then (case comma_groups rest of (g, r) \<Rightarrow> (c # d1 # d2 # d3 # g, r))
      else ([], c # d1 # d2 # d3 # rest))"
| "comma_groups s = ([], s)"

text \<open>\<^verbatim>\<open>(?:\.\d+)?\<close>: the matched fraction and the rest of the text.\<close>

fun fraction_part :: "string \<Rightarrow> string \<times> string" where
  "fraction_part (c # d # rest) =
     (if c = CHR ''.'' \<and> is_digit d
      then (c # takeWhile is_digit (d # rest), dropWhile is_digit (d # rest))
      else ([], c # d # rest))"
| "fraction_part s = ([], s)"

text \<open>One attempt to match the pattern at the start of the text.\<close>

definition match_here :: "string \<Rightarrow> (string \<times> string) option" where
  "match_here s =
     (case s of
        [] \<Rightarrow> None
      | c # cs \<Rightarrow>
          if is_digit c
          then (case comma_groups (dropWhile is_digit s) of
                  (g, r2) \<Rightarrow> (case fraction_part r2 of
                     (f, r3) \<Rightarrow> Some (takeWhile is_digit s @ g @ f, r3)))
          else None)"

lemma comma_groups_length: "length (snd (comma_groups s)) \<le> length s"
  by (induction s rule: comma_groups.induct) (auto split: prod.splits)

lemma fraction_part_length: "length (snd (fraction_part s)) \<le> length s"
proof (induction s rule: fraction_part.induct)
  case (1 c d rest)
  have "length (dropWhile is_digit (d # rest)) \<le> length (d # rest)"
    by (rule length_dropWhile_le)
  then show ?case by auto
qed simp_all

lemma match_here_shorter:
  assumes "match_here s = Some (m, rest)"
  shows "length rest < length s"
proof -
  from assms obtain c cs where s: "s = c # cs" and d: "is_digit c"
    by (auto simp: match_here_def split: list.splits if_splits)
  obtain g r2 where g: "comma_groups (dropWhile is_digit s) = (g, r2)"
    by (cases "comma_groups (dropWhile is_digit s)")
  obtain f r3 where f: "fraction_part r2 = (f, r3)"
    by (cases "fraction_part r2")
  from assms s d g f have "rest = r3"
    by (simp add: match_here_def)
  moreover have "length r3 \<le> length r2"
    using fraction_part_length [of r2] f by simp
  moreover have "length r2 \<le> length (dropWhile is_digit s)"
    using comma_groups_length [of "dropWhile is_digit s"] g by simp
  moreover have "length (dropWhile is_digit s) < length s"
    using s d by (simp add: le_imp_less_Suc length_dropWhile_le)
  ultimately show ?thesis by simp
qed

text \<open>
  \<^verbatim>\<open>message.match(/.../g)\<close>: all matches from left to right, each search resuming where
  the previous match ended; a position where the pattern does not match is skipped.
\<close>

function match_all :: "string \<Rightarrow> string list" where
  "match_all [] = []"
| "match_all (c # cs) =
     (case match_here (c # cs) of
        Some (m, rest) \<Rightarrow> m # match_all rest
      | None \<Rightarrow> match_all cs)"
  by pat_completeness auto
termination
  by (relation "measure length") (auto dest: match_here_shorter)

definition digit_val :: "char \<Rightarrow> nat" where
  "digit_val c = of_char c - 48"

definition digits_val :: "string \<Rightarrow> nat" where
  "digits_val ds = foldl (\<lambda>a c. 10 * a + digit_val c) 0 ds"

text \<open>
  \<^verbatim>\<open>parseFloat\<close> on a text that starts with a decimal literal of the form
  \<open>digits\<close> or \<open>digits.digits\<close>, which is what a match with its commas removed is.
  A text with no leading digit gives \<open>NaN\<close>; signs, exponents and leading white space
  cannot occur in a match and are not modelled.
\<close>

definition parseFloat :: "string \<Rightarrow> jsnum" where
  "parseFloat s =
     (let ip = takeWhile is_digit s; rest = dropWhile is_digit s
      in if ip = [] then NaN
         else (case rest of
                 c # d # _ \<Rightarrow>
                   if c = CHR ''.'' \<and> is_digit d
                   then (let fp = takeWhile is_digit (tl rest)
                         in norm64 (real (digits_val ip) + real (digits_val fp) / 10 ^ length fp))
                   else norm64 (real (digits_val ip))
               | _ \<Rightarrow> norm64 (real (digits_val ip))))"

text \<open>\<^verbatim>\<open>num.replace(/,/g, '')\<close>\<close>

definition remove_commas :: "string \<Rightarrow> string" where
  "remove_commas s = filter (\<lambda>c. c \<noteq> CHR '','') s"

text \<open>
  \<^verbatim>\<open>
  extractNumbers(message) {
    const numbers = message.match(/\d+(?:,\d{3})*(?:\.\d+)?/g);
    return numbers ? numbers.map(num => parseFloat(num.replace(/,/g, ''))) : [];
  }
  \<close>
\<close>

definition extractNumbers :: "string \<Rightarrow> jsnum list" where
  "extractNumbers message = map (\<lambda>num. parseFloat (remove_commas num)) (match_all message)"

section \<open>Tool results\<close>

text \<open>The record \<^verbatim>\<open>calculateMortgage\<close> returns when it succeeds.\<close>

record mortgage_quote =
  propertyPrice :: jsnum
  downPayment :: jsnum
  loanAmount :: jsnum
  interestRate :: jsnum
  loanTermYears :: nat
  monthlyPayment :: jsnum
  totalCost :: jsnum
  totalInterest :: jsnum

text \<open>The \<^verbatim>\<open>advancedDetails\<close> object of \<^verbatim>\<open>calculateMortgageAdvanced\<close>.\<close>

record advanced_details =
  downPaymentPercent :: jsnum
  monthlyPmi :: jsnum
  monthlyPropertyTax :: jsnum
  monthlyInsurance :: jsnum
  totalMonthlyPayment :: jsnum

text \<open>The result of \<^verbatim>\<open>validatePromptRelevance\<close>; \<open>None\<close> is \<^verbatim>\<open>null\<close>.\<close>

record relevance =
  isValid :: bool
  relevanceScore :: jsnum
  filteredContent :: "string option"

text \<open>
  The objects the tools return, one constructor for each shape.  The tools that only
  return sample data keep the fields the service reads back (\<open>totalResults\<close>,
  \<open>location\<close>, \<open>currentRate\<close>); the rest of their fixed payload is left out.
  \<open>ErrorRecord msg\<close> is the object \<^verbatim>\<open>{ error: msg }\<close>.
\<close>

datatype tool_result =
    ErrorRecord string
  | RelevanceResult relevance
  | SearchResult jsnum
  | HistoryResult
  | DetailsResult
  | RatesResult string jsnum
  | MortgageResult mortgage_quote
  | SavedResult
  | ServicedResult
  | AdvancedResult mortgage_quote advanced_details
  | RoiResult jsnum jsnum jsnum
  | CapRateResult jsnum jsnum jsnum

section \<open>The tools\<close>

definition propertyKeywords :: "string list" where
  "propertyKeywords =
     [''property'', ''house'', ''home'', ''apartment'', ''condo'', ''real estate'',
      ''buy'', ''sell'', ''rent'', ''mortgage'', ''loan'', ''investment'', ''roi'',
      ''bedroom'', ''bathroom'', ''square feet'', ''price'', ''location'',
      ''neighborhood'', ''market'', ''listing'', ''agent'', ''broker'']"

definition redirectText :: string where
  "redirectText = ''I'm here to help with property investment and real estate questions. How can I assist you with property details, market analysis, or investment calculations?''"

definition validatePromptRelevance :: "string \<Rightarrow> relevance" where
  "validatePromptRelevance message =
     (let messageLower = toLowerCase message;
          relevantKeywords =
            length (filter (\<lambda>keyword. includes_str messageLower keyword) propertyKeywords);
          valid = (0 < relevantKeywords)
      in \<lparr> isValid = valid,
           relevanceScore =
             jdiv (Fin (real relevantKeywords)) (Fin (real (length propertyKeywords))),
           filteredContent = (if valid then None else Some redirectText) \<rparr>)"

definition searchPropertyInfo :: "string \<Rightarrow> tool_result" where
  "searchPropertyInfo message = SearchResult (Fin 2)"

definition getUserChatHistory :: "string \<Rightarrow> tool_result" where
  "getUserChatHistory message = HistoryResult"

definition getPropertyDetails :: "string \<Rightarrow> tool_result" where
  "getPropertyDetails message = DetailsResult"

definition commonLocations :: "string list" where
  "commonLocations =
     [''downtown'', ''midtown'', ''uptown'', ''suburbs'', ''california'', ''texas'',
      ''florida'', ''new york'', ''chicago'', ''los angeles'', ''miami'']"

text \<open>
  \<^verbatim>\<open>toUpperCase\<close> on one character; the service applies it to the first letter of a
  location name of its list only, which is a small ASCII letter.
\<close>

definition toUpperCase_char :: "char \<Rightarrow> char" where
  "toUpperCase_char c =
     (let n = (of_char c :: nat)
      in if 97 \<le> n \<and> n \<le> 122 then char_of (n - 32) else c)"

text \<open>
  \<^verbatim>\<open>location.charAt(0).toUpperCase() + location.slice(1)\<close> for the first location of the
  list that the lowercase message includes; \<open>None\<close> is \<^verbatim>\<open>null\<close>.
\<close>

definition extractLocation :: "string \<Rightarrow> string option" where
  "extractLocation message =
     (let messageLower = toLowerCase message
      in (case filter (\<lambda>location. includes_str messageLower location) commonLocations of
            [] \<Rightarrow> None
          | location # _ \<Rightarrow> Some (map toUpperCase_char (take 1 location) @ drop 1 location)))"

definition getInterestRates :: "string \<Rightarrow> tool_result" where
  "getInterestRates message =
     (let location = (case extractLocation message of
                        Some l \<Rightarrow> if l = [] then ''United States'' else l
                      | None \<Rightarrow> ''United States'')
      in RatesResult location (Fin (72 / 10)))"

definition mortgage_error :: string where
  "mortgage_error = ''Please provide property price and down payment for mortgage calculation''"

text \<open>
  \<^verbatim>\<open>
  const numbers = this.extractNumbers(message);
  if (numbers.length < 2) { return { error: "Please provide ..." }; }
  const propertyPrice = numbers[0];
  const downPayment = numbers[1];
  const interestRate = numbers[2] || 7.2;
  const loanTermYears = 30;
  const loanAmount = propertyPrice - downPayment;
  const monthlyRate = interestRate / 100 / 12;
  const numPayments = loanTermYears * 12;
  let monthlyPayment;
  if (monthlyRate > 0) {
    monthlyPayment = loanAmount * (monthlyRate * Math.pow(1 + monthlyRate, numPayments))
                     / (Math.pow(1 + monthlyRate, numPayments) - 1);
  } else {
    monthlyPayment = loanAmount / numPayments;
  }
  return { propertyPrice, downPayment, loanAmount, interestRate, loanTermYears,
    monthlyPayment: Math.round(monthlyPayment * 100) / 100,
    totalCost: Math.round(monthlyPayment * numPayments * 100) / 100,
    totalInterest: Math.round((monthlyPayment * numPayments - loanAmount) * 100) / 100 };
  \<close>
  \<^verbatim>\<open>numbers[2]\<close> is \<^verbatim>\<open>undefined\<close>, which is falsy, when there are only two numbers.
\<close>

definition rate_or_default :: "jsnum list \<Rightarrow> jsnum" where
  "rate_or_default numbers =
     (if 2 < length numbers \<and> truthy (numbers ! 2) then numbers ! 2 else Fin (72 / 10))"

definition monthly_payment :: "jsnum \<Rightarrow> jsnum \<Rightarrow> nat \<Rightarrow> jsnum" where
  "monthly_payment loan monthlyRate numPayments =
     (if jgt monthlyRate (Fin 0)
      then jdiv (jmul loan (jmul monthlyRate (Math_pow (jadd (Fin 1) monthlyRate) numPayments)))
                (jsub (Math_pow (jadd (Fin 1) monthlyRate) numPayments) (Fin 1))
      else jdiv loan (Fin (real numPayments)))"

definition calculateMortgage :: "string \<Rightarrow> tool_result" where
  "calculateMortgage message =
     (let numbers = extractNumbers message
      in if length numbers < 2 then ErrorRecord mortgage_error
         else
           (let price = numbers ! 0;
                down = numbers ! 1;
                rate = rate_or_default numbers;
                termYears = 30;
                loan = jsub price down;
                monthlyRate = jdiv (jdiv rate (Fin 100)) (Fin 12);
                numPayments = termYears * 12;
                payment = monthly_payment loan monthlyRate numPayments
            in MortgageResult
                 \<lparr> propertyPrice = price,
                   downPayment = down,
                   loanAmount = loan,
                   interestRate = rate,
                   loanTermYears = termYears,
                   monthlyPayment = round_cents payment,
                   totalCost = round_cents (jmul payment (Fin (real numPayments))),
                   totalInterest =
                     round_cents (jsub (jmul payment (Fin (real numPayments))) loan) \<rparr>))"

definition getUserSavedProperties :: "string \<Rightarrow> tool_result" where
  "getUserSavedProperties message = SavedResult"

definition getServicedProperties :: "string \<Rightarrow> tool_result" where
  "getServicedProperties message = ServicedResult"

text \<open>
  \<^verbatim>\<open>
  const basicCalc = await this.calculateMortgage(message);
  if (basicCalc.error) { return basicCalc; }
  const downPaymentPercent = (basicCalc.downPayment / basicCalc.propertyPrice) * 100;
  const monthlyPmi = downPaymentPercent < 20 ? (basicCalc.loanAmount * 0.5 / 100) / 12 : 0;
  const monthlyPropertyTax = (basicCalc.propertyPrice * 1.2 / 100) / 12;
  const monthlyInsurance = (basicCalc.propertyPrice * 0.4 / 100) / 12;
  return { ...basicCalc, advancedDetails: { ... each rounded to cents ... } };
  \<close>
\<close>

definition down_payment_percent :: "mortgage_quote \<Rightarrow> jsnum" where
  "down_payment_percent basicCalc =
     jmul (jdiv (downPayment basicCalc) (propertyPrice basicCalc)) (Fin 100)"

definition pmi_amount :: "mortgage_quote \<Rightarrow> jsnum" where
  "pmi_amount basicCalc =
     (if jlt (down_payment_percent basicCalc) (Fin 20)
      then jdiv (jdiv (jmul (loanAmount basicCalc) (Fin (5 / 10))) (Fin 100)) (Fin 12)
      else Fin 0)"

definition advanced_of :: "mortgage_quote \<Rightarrow> advanced_details" where
  "advanced_of basicCalc =
     (let pmi = pmi_amount basicCalc;
          tax = jdiv (jdiv (jmul (propertyPrice basicCalc) (Fin (12 / 10))) (Fin 100)) (Fin 12);
          insurance = jdiv (jdiv (jmul (propertyPrice basicCalc) (Fin (4 / 10))) (Fin 100)) (Fin 12)
      in \<lparr> downPaymentPercent = round_cents (down_payment_percent basicCalc),
           monthlyPmi = round_cents pmi,
           monthlyPropertyTax = round_cents tax,
           monthlyInsurance = round_cents insurance,
           totalMonthlyPayment =
             round_cents (jadd (jadd (jadd (monthlyPayment basicCalc) pmi) tax) insurance) \<rparr>)"

definition calculateMortgageAdvanced :: "string \<Rightarrow> tool_result" where
  "calculateMortgageAdvanced message =
     (case calculateMortgage message of
        MortgageResult basicCalc \<Rightarrow> AdvancedResult basicCalc (advanced_of basicCalc)
      | basicCalc \<Rightarrow> basicCalc)"

definition calculator_error :: string where
  "calculator_error = ''Please specify calculation type (ROI or Cap Rate) with required numbers''"

text \<open>
  \<^verbatim>\<open>
  if (messageLower.includes('roi') && numbers.length >= 2) {
    const initialInvestment = numbers[0]; const annualReturn = numbers[1];
    const roiPercentage = (annualReturn / initialInvestment) * 100;
    return { calculationType: 'roi', initialInvestment, annualReturn,
             roiPercentage: Math.round(roiPercentage * 100) / 100 };
  }
  if (messageLower.includes('cap rate') && numbers.length >= 2) {
    const annualIncome = numbers[0]; const propertyValue = numbers[1];
    const capRate = (annualIncome / propertyValue) * 100;
    return { calculationType: 'cap_rate', annualIncome, propertyValue,
             capRatePercentage: Math.round(capRate * 100) / 100 };
  }
  return { error: "Please specify calculation type (ROI or Cap Rate) with required numbers" };
  \<close>
\<close>

definition getFinancialCalculator :: "string \<Rightarrow> tool_result" where
  "getFinancialCalculator message =
     (let numbers = extractNumbers message;
          messageLower = toLowerCase message
      in if includes_str messageLower ''roi'' \<and> 2 \<le> length numbers
         then (let initialInvestment = numbers ! 0;
                   annualReturn = numbers ! 1;
                   roiPercentage = jmul (jdiv annualReturn initialInvestment) (Fin 100)
               in RoiResult initialInvestment annualReturn (round_cents roiPercentage))
         else if includes_str messageLower ''cap rate'' \<and> 2 \<le> length numbers
         then (let annualIncome = numbers ! 0;
                   propertyValue = numbers ! 1;
                   capRate = jmul (jdiv annualIncome propertyValue) (Fin 100)
               in CapRateResult annualIncome propertyValue (round_cents capRate))
         else ErrorRecord calculator_error)"

section \<open>The keyword classifier\<close>

text \<open>The five checks of \<^verbatim>\<open>determineRequiredTools\<close>, in the order the method makes them.\<close>

definition determineRequiredTools :: "string \<Rightarrow> string list" where
  "determineRequiredTools message =
     (let messageLower = toLowerCase message
      in (if containsAny messageLower [''find'', ''search'', ''show'', ''properties'', ''houses'']
          then [''searchPropertyInfo''] else [])
       @ (if containsAny messageLower [''mortgage'', ''payment'', ''loan'', ''calculate'']
          then [''calculateMortgage''] else [])
       @ (if containsAny messageLower [''interest'', ''rate'', ''rates'']
          then [''getInterestRates''] else [])
       @ (if containsAny messageLower [''roi'', ''return'', ''investment'', ''cap rate'']
          then [''getFinancialCalculator''] else [])
       @ (if containsAny messageLower [''details'', ''information'', ''about property'']
          then [''getPropertyDetails''] else []))"

section \<open>The response composer\<close>

text \<open>
  What a JavaScript \<^verbatim>\<open>throw\<close> carries.  The service never inspects a caught value, so
  the model only tells a \<^verbatim>\<open>TypeError\<close> raised by the language from any other thrown value.
\<close>

datatype js_error = TypeError string | Thrown string

text \<open>
  The \<^verbatim>\<open>message\<close> property of an inbound payload is whatever the client sent.  On a value
  that is not a string, \<^verbatim>\<open>message.length\<close> or \<^verbatim>\<open>message.toLowerCase()\<close> raises a
  \<^verbatim>\<open>TypeError\<close> inside the \<^verbatim>\<open>try\<close> block of \<^verbatim>\<open>processMessage\<close>.
\<close>

datatype js_message = Str string | OtherValue

record chat_request =
  message :: js_message
  sessionId :: string
  userId :: string

record property_data =
  searchResults :: "tool_result option"
  propertyDetails :: "tool_result option"
  mortgageCalculation :: "tool_result option"

text \<open>The object \<^verbatim>\<open>processMessage\<close> resolves to; \<open>None\<close> is \<^verbatim>\<open>null\<close>.\<close>

record chat_response =
  response :: "string option"
  resp_sessionId :: string
  timestamp :: string
  toolsUsed :: "string list"
  propertyData :: "property_data option"
  executionTime :: int

text \<open>
  What the service takes from its environment: the completion endpoint (the request and
  the read of \<^verbatim>\<open>completion.choices[0].message.content\<close>, either of which may throw),
  \<^verbatim>\<open>JSON.stringify(result, null, 2)\<close>, the two renderings of a number
  (\<^verbatim>\<open>toLocaleString()\<close>, which depends on the locale of the host, and the conversion a
  template literal applies), and the clock readings of one call.
\<close>

record host =
  complete :: "(string \<times> string) list \<Rightarrow> js_error + string"
  stringify :: "tool_result \<Rightarrow> string"
  toLocaleString :: "jsnum \<Rightarrow> string"
  numberToString :: "jsnum \<Rightarrow> string"
  startTime :: int
  endTime :: int
  isoTime :: string

text \<open>
  A tool takes the message and the context \<^verbatim>\<open>{ userId, sessionId }\<close> and returns a
  result or throws.  The registry \<^verbatim>\<open>this.mcpTools\<close> is looked up by name.
\<close>

type_synonym tool_context = "string \<times> string"

type_synonym tool = "string \<Rightarrow> tool_context \<Rightarrow> js_error + tool_result"

type_synonym registry = "string \<Rightarrow> tool option"

text \<open>The registry the constructor builds, in the order of its declaration.\<close>

definition mcpTools :: "(string \<times> tool) list" where
  "mcpTools =
     [(''validatePromptRelevance'', \<lambda>m c. Inr (RelevanceResult (validatePromptRelevance m))),
      (''searchPropertyInfo'', \<lambda>m c. Inr (searchPropertyInfo m)),
      (''getUserChatHistory'', \<lambda>m c. Inr (getUserChatHistory m)),
      (''getPropertyDetails'', \<lambda>m c. Inr (getPropertyDetails m)),
      (''getInterestRates'', \<lambda>m c. Inr (getInterestRates m)),
      (''calculateMortgage'', \<lambda>m c. Inr (calculateMortgage m)),
      (''getUserSavedProperties'', \<lambda>m c. Inr (getUserSavedProperties m)),
      (''getServicedProperties'', \<lambda>m c. Inr (getServicedProperties m)),
      (''calculateMortgageAdvanced'', \<lambda>m c. Inr (calculateMortgageAdvanced m)),
      (''getFinancialCalculator'', \<lambda>m c. Inr (getFinancialCalculator m))]"

text \<open>What the composer does that a caller could observe besides the returned record.\<close>

datatype event = ToolCall string | CompletionCall

text \<open>
  \<^verbatim>\<open>
  try { toolResults[toolName] = await this.mcpTools[toolName](message, { userId, sessionId }); }
  catch (error) { toolResults[toolName] = { error: `Failed to execute ${toolName}` }; }
  \<close>
\<close>

definition invoke :: "tool \<Rightarrow> string \<Rightarrow> string \<Rightarrow> tool_context \<Rightarrow> tool_result" where
  "invoke t toolName text ctx =
     (case t text ctx of
        Inr result \<Rightarrow> result
      | Inl error \<Rightarrow> ErrorRecord (''Failed to execute '' @ toolName))"

text \<open>
  The loop over \<^verbatim>\<open>toolsToUse\<close>.  \<open>toolResults\<close> is the object under construction, its
  keys in insertion order; a name the registry does not know is skipped.
\<close>

fun run_tools :: "registry \<Rightarrow> string \<Rightarrow> tool_context \<Rightarrow> string list \<Rightarrow>
    (string \<times> tool_result) list \<times> event list \<Rightarrow> (string \<times> tool_result) list \<times> event list" where
  "run_tools reg text ctx [] st = st"
| "run_tools reg text ctx (toolName # rest) (toolResults, trace) =
     (case reg toolName of
        None \<Rightarrow> run_tools reg text ctx rest (toolResults, trace)
      | Some t \<Rightarrow>
          run_tools reg text ctx rest
            (AList.update toolName (invoke t toolName text ctx) toolResults,
             trace @ [ToolCall toolName]))"

definition nl :: string where
  "nl = [CHR 0x0A]"

definition system_prompt :: string where
  "system_prompt = ''You are a Blue Pixel AI real estate assistant. You help with property investment analysis, mortgage calculations, and market insights. Use the provided tool data to give accurate, helpful responses. Be conversational but professional.''"

text \<open>\<^verbatim>\<open>result.error\<close> is truthy: the object has an \<^verbatim>\<open>error\<close> property that is not empty.\<close>

fun has_error :: "tool_result \<Rightarrow> bool" where
  "has_error (ErrorRecord msg) = (msg \<noteq> [])"
| "has_error _ = False"

definition tool_context_text :: "host \<Rightarrow> (string \<times> tool_result) list \<Rightarrow> string" where
  "tool_context_text h toolResults =
     foldl (\<lambda>toolContext (toolName, result).
              if has_error result then toolContext
              else toolContext @ nl @ toolName @ '': '' @ stringify h result @ nl)
           (''Available data from tools:'' @ nl) toolResults"

definition prompt_messages :: "host \<Rightarrow> string \<Rightarrow> (string \<times> tool_result) list \<Rightarrow> (string \<times> string) list" where
  "prompt_messages h text toolResults =
     [(''system'', system_prompt), (''user'', text)]
     @ (if toolResults \<noteq> [] then [(''system'', tool_context_text h toolResults)] else [])"

text \<open>
  The properties the fallback reads back.  \<open>None\<close> is \<^verbatim>\<open>undefined\<close>: the object has no
  such property.  The advanced result spreads the basic one, so it has its properties.
\<close>

fun quote_of :: "tool_result \<Rightarrow> mortgage_quote option" where
  "quote_of (MortgageResult q) = Some q"
| "quote_of (AdvancedResult q a) = Some q"
| "quote_of _ = None"

fun totalResults_of :: "tool_result \<Rightarrow> jsnum option" where
  "totalResults_of (SearchResult n) = Some n"
| "totalResults_of _ = None"

fun currentRate_of :: "tool_result \<Rightarrow> jsnum option" where
  "currentRate_of (RatesResult location rate) = Some rate"
| "currentRate_of _ = None"

text \<open>A template literal renders \<^verbatim>\<open>undefined\<close> as the text \<open>undefined\<close>.\<close>

definition template :: "host \<Rightarrow> jsnum option \<Rightarrow> string" where
  "template h v = (case v of None \<Rightarrow> ''undefined'' | Some n \<Rightarrow> numberToString h n)"

definition generic_reply :: string where
  "generic_reply = ''I'm here to help with your real estate questions. You can ask me about property searches, mortgage calculations, investment analysis, and current market rates.''"

text \<open>
  \<^verbatim>\<open>
  if (toolResults.calculateMortgage && !toolResults.calculateMortgage.error) {
    const calc = toolResults.calculateMortgage;
    response += `For a $${calc.propertyPrice.toLocaleString()} property with $${calc.downPayment.toLocaleString()} down payment:\n`;
    response += `- Monthly payment: $${calc.monthlyPayment.toLocaleString()}\n`;
    response += `- Total interest: $${calc.totalInterest.toLocaleString()}\n\n`;
  }
  \<close>
  On an object without these properties \<^verbatim>\<open>calc.propertyPrice\<close> is \<^verbatim>\<open>undefined\<close> and the
  call of \<^verbatim>\<open>toLocaleString\<close> on it raises a \<^verbatim>\<open>TypeError\<close>.
\<close>

definition mortgage_lines :: "host \<Rightarrow> (string \<times> tool_result) list \<Rightarrow> js_error + string" where
  "mortgage_lines h toolResults =
     (case map_of toolResults ''calculateMortgage'' of
        None \<Rightarrow> Inr []
      | Some calc \<Rightarrow>
          if has_error calc then Inr []
          else (case quote_of calc of
                  None \<Rightarrow> Inl (TypeError ''Cannot read properties of undefined'')
                | Some q \<Rightarrow>
                    Inr (''For a $'' @ toLocaleString h (propertyPrice q)
                         @ '' property with $'' @ toLocaleString h (downPayment q)
                         @ '' down payment:'' @ nl
                         @ ''- Monthly payment: $'' @ toLocaleString h (monthlyPayment q) @ nl
                         @ ''- Total interest: $'' @ toLocaleString h (totalInterest q) @ nl @ nl)))"

definition search_lines :: "host \<Rightarrow> (string \<times> tool_result) list \<Rightarrow> string" where
  "search_lines h toolResults =
     (case map_of toolResults ''searchPropertyInfo'' of
        None \<Rightarrow> []
      | Some r \<Rightarrow> ''Found '' @ template h (totalResults_of r)
                  @ '' properties matching your criteria.'' @ nl @ nl)"

definition rates_lines :: "host \<Rightarrow> (string \<times> tool_result) list \<Rightarrow> string" where
  "rates_lines h toolResults =
     (case map_of toolResults ''getInterestRates'' of
        None \<Rightarrow> []
      | Some r \<Rightarrow> ''Current interest rates: '' @ template h (currentRate_of r) @ ''%'' @ nl @ nl)"

text \<open>The \<^verbatim>\<open>catch\<close> block of \<^verbatim>\<open>generateAIResponse\<close>: the reply built without the model.\<close>

definition fallback_reply :: "host \<Rightarrow> (string \<times> tool_result) list \<Rightarrow> js_error + string" where
  "fallback_reply h toolResults =
     (if toolResults \<noteq> []
      then (case mortgage_lines h toolResults of
              Inl e \<Rightarrow> Inl e
            | Inr lines \<Rightarrow>
                Inr (''Based on the available data:'' @ nl @ nl
                     @ lines @ search_lines h toolResults @ rates_lines h toolResults
                     @ ''How else can I help you with your real estate needs?''))
      else Inr generic_reply)"

definition generateAIResponse ::
    "host \<Rightarrow> string \<Rightarrow> (string \<times> tool_result) list \<Rightarrow> (js_error + string) \<times> event list" where
  "generateAIResponse h text toolResults =
     (case complete h (prompt_messages h text toolResults) of
        Inr content \<Rightarrow> (Inr content, [CompletionCall])
      | Inl error \<Rightarrow> (fallback_reply h toolResults, [CompletionCall]))"

definition extractPropertyData :: "(string \<times> tool_result) list \<Rightarrow> property_data option" where
  "extractPropertyData toolResults =
     (let data = \<lparr> searchResults = map_of toolResults ''searchPropertyInfo'',
                    propertyDetails = map_of toolResults ''getPropertyDetails'',
                    mortgageCalculation = map_of toolResults ''calculateMortgage'' \<rparr>
      in if searchResults data = None \<and> propertyDetails data = None
            \<and> mortgageCalculation data = None
         then None else Some data)"

definition apology :: string where
  "apology = ''I apologize, but I encountered an error processing your request. Please try again.''"

text \<open>The \<^verbatim>\<open>try\<close> block of \<^verbatim>\<open>processMessage\<close>: the record it returns or the value it throws.\<close>

definition processMessage_try ::
    "host \<Rightarrow> registry \<Rightarrow> chat_request \<Rightarrow> (js_error + chat_response) \<times> event list" where
  "processMessage_try h reg req =
     (case message req of
        OtherValue \<Rightarrow> (Inl (TypeError ''message is not a string''), [])
      | Str text \<Rightarrow>
          (let isRelevant = validatePromptRelevance text
           in if \<not> isValid isRelevant
              then (Inr \<lparr> response = filteredContent isRelevant,
                          resp_sessionId = sessionId req,
                          timestamp = isoTime h,
                          toolsUsed = [''validatePromptRelevance''],
                          propertyData = None,
                          executionTime = endTime h - startTime h \<rparr>, [])
              else
                (let toolsToUse = determineRequiredTools text
                 in (case run_tools reg text (userId req, sessionId req) toolsToUse ([], []) of
                       (toolResults, trace) \<Rightarrow>
                         (case generateAIResponse h text toolResults of
                            (Inl error, trace') \<Rightarrow> (Inl error, trace @ trace')
                          | (Inr aiResponse, trace') \<Rightarrow>
                              (Inr \<lparr> response = Some aiResponse,
                                     resp_sessionId = sessionId req,
                                     timestamp = isoTime h,
                                     toolsUsed = ''validatePromptRelevance'' # toolsToUse,
                                     propertyData = extractPropertyData toolResults,
                                     executionTime = endTime h - startTime h \<rparr>,
                               trace @ trace'))))))"

text \<open>
  \<^verbatim>\<open>processMessage\<close>: the \<^verbatim>\<open>try\<close> block with its \<^verbatim>\<open>catch\<close>, which turns whatever was thrown
  into the apology record.  The result is what the returned promise settles to:
  \<open>Inr\<close> a record when it resolves, \<open>Inl\<close> when it rejects.
\<close>

definition processMessage ::
    "host \<Rightarrow> registry \<Rightarrow> chat_request \<Rightarrow> (js_error + chat_response) \<times> event list" where
  "processMessage h reg req =
     (case processMessage_try h reg req of
        (Inr result, trace) \<Rightarrow> (Inr result, trace)
      | (Inl error, trace) \<Rightarrow>
          (Inr \<lparr> response = Some apology,
                 resp_sessionId = sessionId req,
                 timestamp = isoTime h,
                 toolsUsed = [],
                 propertyData = None,
                 executionTime = endTime h - startTime h \<rparr>, trace))"

section \<open>Sample environments\<close>

text \<open>A host whose completion endpoint is out of reach, with placeholder renderings.\<close>

definition offline_host :: host where
  "offline_host =
     \<lparr> complete = (\<lambda>msgs. Inl (Thrown ''connect ECONNREFUSED'')),
       stringify = (\<lambda>r. ''{}''),
       toLocaleString = (\<lambda>n. (case n of Fin a \<Rightarrow> ''#'' | _ \<Rightarrow> ''NaN'')),
       numberToString = (\<lambda>n. (case n of Fin a \<Rightarrow> ''#'' | _ \<Rightarrow> ''NaN'')),
       startTime = 1000, endTime = 1007, isoTime = ''2024-03-01T00:00:00.000Z'' \<rparr>"

section \<open>The classifier as the specification words it\<close>

text \<open>
  The keyword list of each tool the classifier knows, in the order in which
  \<^verbatim>\<open>determineRequiredTools\<close> tests them.
\<close>

definition tool_keywords :: "(string \<times> string list) list" where
  "tool_keywords =
     [(''searchPropertyInfo'', [''find'', ''search'', ''show'', ''properties'', ''houses'']),
      (''calculateMortgage'', [''mortgage'', ''payment'', ''loan'', ''calculate'']),
      (''getInterestRates'', [''interest'', ''rate'', ''rates'']),
      (''getFinancialCalculator'', [''roi'', ''return'', ''investment'', ''cap rate'']),
      (''getPropertyDetails'', [''details'', ''information'', ''about property''])]"

text \<open>
  The names of the tools whose keyword list has at least one match in the lowercase
  text, each list tested on its own.
\<close>

definition matching_tools :: "string \<Rightarrow> string list" where
  "matching_tools text =
     map fst (filter (\<lambda>(name, keywords). containsAny (toLowerCase text) keywords)
                     tool_keywords)"

text \<open>\<open>xs\<close> lists its names in the order in which \<open>order\<close> declares them.\<close>

definition in_order_of :: "string list \<Rightarrow> string list \<Rightarrow> bool" where
  "in_order_of order xs = (xs = filter (\<lambda>name. name \<in> set xs) order)"

section \<open>A registry with a failing tool\<close>



section \<open>A sample quote and a sample locale\<close>





section \<open>Number tokens as the specification words them\<close>






section \<open>A rate that underflows\<close>



section \<open>Magnitudes inside the range\<close>


section \<open>Evaluation of the definitions on concrete texts\<close>

lemmas string_eval =
  toLowerCase_def toLowerCase_char_def char_of_eq_iff startsWith_def containsAny_def

lemmas number_eval =
  extractNumbers_def match_here_def is_digit_def remove_commas_def parseFloat_def
  digits_val_def digit_val_def norm64_def MAX_LIMIT_def MIN_LIMIT_def round_cents_def
  signed_inf_def

section \<open>Arithmetic inside the binary64 range\<close>







lemma norm64_zero [simp]: "norm64 0 = Fin 0"
  by (simp add: norm64_def MAX_LIMIT_def MIN_LIMIT_def)


















section \<open>The numeric extractor on number tokens\<close>

lemma not_digit_comma [simp]: "\<not> is_digit CHR '',''"
  by (simp add: is_digit_def)

lemma not_digit_dot [simp]: "\<not> is_digit CHR ''.''"
  by (simp add: is_digit_def)
























section \<open>The relevance gate\<close>

lemma isValid_iff:
  "isValid (validatePromptRelevance text) \<longleftrightarrow>
     (\<exists>k \<in> set propertyKeywords. includes_str (toLowerCase text) k)"
  by (simp add: validatePromptRelevance_def Let_def filter_empty_conv)

lemma filteredContent_rejected:
  "\<not> isValid (validatePromptRelevance text) \<Longrightarrow>
     filteredContent (validatePromptRelevance text) = Some redirectText"
  by (simp add: validatePromptRelevance_def Let_def)

lemma hello_irrelevant:
  "\<forall>k \<in> set propertyKeywords. \<not> includes_str (toLowerCase ''Hello there!'') k"
  by (simp add: propertyKeywords_def string_eval)

text \<open>
  Claim C2.  When no keyword of the real-estate vocabulary occurs in the lowercase
  message, \<open>processMessage\<close> resolves to the record that carries the fixed redirect text,
  lists the relevance gate as the only tool used and has no property data; it calls no
  tool and does not call the completion endpoint (the trace of calls is empty).
\<close>

theorem irrelevant_message_short_circuits:
  assumes "message req = Str text"
    and "\<forall>k \<in> set propertyKeywords. \<not> includes_str (toLowerCase text) k"
  shows "processMessage h reg req =
           (Inr \<lparr> response = Some redirectText,
                  resp_sessionId = sessionId req,
                  timestamp = isoTime h,
                  toolsUsed = [''validatePromptRelevance''],
                  propertyData = None,
                  executionTime = endTime h - startTime h \<rparr>, [])"
proof -
  from assms(2) have rejected: "\<not> isValid (validatePromptRelevance text)"
    by (simp add: isValid_iff)
  then have "processMessage_try h reg req =
           (Inr \<lparr> response = Some redirectText,
                  resp_sessionId = sessionId req,
                  timestamp = isoTime h,
                  toolsUsed = [''validatePromptRelevance''],
                  propertyData = None,
                  executionTime = endTime h - startTime h \<rparr>, [])"
    using assms(1) by (simp add: processMessage_try_def filteredContent_rejected)
  then show ?thesis
    by (simp add: processMessage_def)
qed

theorem irrelevant_message_short_circuits_witness:
  "\<not> containsAny (toLowerCase ''Hello there!'') propertyKeywords
   \<and> processMessage offline_host (map_of mcpTools)
        \<lparr> message = Str ''Hello there!'', sessionId = ''s1'', userId = ''u1'' \<rparr> =
           (Inr \<lparr> response = Some redirectText,
                  resp_sessionId = ''s1'',
                  timestamp = ''2024-03-01T00:00:00.000Z'',
                  toolsUsed = [''validatePromptRelevance''],
                  propertyData = None,
                  executionTime = 7 \<rparr>, [])"
  using irrelevant_message_short_circuits
    [of "\<lparr> message = Str ''Hello there!'', sessionId = ''s1'', userId = ''u1'' \<rparr>"
        "''Hello there!''" offline_host "map_of mcpTools", OF _ hello_irrelevant]
    hello_irrelevant
  by (simp add: offline_host_def containsAny_def list_ex_iff)

section \<open>The order of the classifier\<close>




text \<open>
  Claim C8, as stated, fails on the order.  The registry declares \<^verbatim>\<open>getInterestRates\<close>
  before \<^verbatim>\<open>calculateMortgage\<close>, and for a message that matches both lists the classifier
  returns \<^verbatim>\<open>calculateMortgage\<close> first: its result is not in the order of the registry.
\<close>

theorem classifier_order_counterexample:
  "\<not> in_order_of (map fst mcpTools) (determineRequiredTools ''What mortgage rate can I get?'')"
  by (simp add: in_order_of_def mcpTools_def determineRequiredTools_def string_eval)

text \<open>
  Claim C8, amended.  For every message the classifier returns exactly the names of the
  tools whose keyword list has a match in the lowercase message, every list being tested
  on its own, and it returns them in the fixed order of its own five checks
  (\<^verbatim>\<open>searchPropertyInfo\<close>, \<^verbatim>\<open>calculateMortgage\<close>, \<^verbatim>\<open>getInterestRates\<close>,
  \<^verbatim>\<open>getFinancialCalculator\<close>, \<^verbatim>\<open>getPropertyDetails\<close>).
\<close>

theorem classifier_matching_tools:
  "determineRequiredTools text = matching_tools text
   \<and> in_order_of (map fst tool_keywords) (determineRequiredTools text)"
  by (simp add: determineRequiredTools_def matching_tools_def tool_keywords_def
      in_order_of_def Let_def)

theorem classifier_matching_tools_witness:
  "determineRequiredTools ''What mortgage rate can I get?''
     = [''calculateMortgage'', ''getInterestRates'']
   \<and> matching_tools ''What mortgage rate can I get?''
     = [''calculateMortgage'', ''getInterestRates'']"
  using classifier_matching_tools [of "''What mortgage rate can I get?''"]
  by (simp add: determineRequiredTools_def string_eval)

section \<open>Too few numbers\<close>

text \<open>
  Claim C6.  When fewer than two numbers can be extracted from the message,
  \<open>calculateMortgage\<close> returns the error record, \<open>calculateMortgageAdvanced\<close> returns that
  same record with nothing added, and neither registry entry throws (each returns the
  record as a value).
\<close>

theorem too_few_numbers_error_record:
  assumes "length (extractNumbers text) < 2"
  shows "calculateMortgage text = ErrorRecord mortgage_error
       \<and> calculateMortgageAdvanced text = calculateMortgage text
       \<and> (\<exists>t. map_of mcpTools ''calculateMortgage'' = Some t
              \<and> t text ctx = Inr (ErrorRecord mortgage_error))
       \<and> (\<exists>t. map_of mcpTools ''calculateMortgageAdvanced'' = Some t
              \<and> t text ctx = Inr (ErrorRecord mortgage_error))"
proof -
  have basic: "calculateMortgage text = ErrorRecord mortgage_error"
    using assms by (simp add: calculateMortgage_def)
  then have adv: "calculateMortgageAdvanced text = ErrorRecord mortgage_error"
    by (simp add: calculateMortgageAdvanced_def)
  show ?thesis
    using basic adv by (simp add: mcpTools_def)
qed

theorem too_few_numbers_error_record_witness:
  "length (extractNumbers ''mortgage for a $450,000 house'') < 2
   \<and> calculateMortgage ''mortgage for a $450,000 house'' = ErrorRecord mortgage_error
   \<and> calculateMortgageAdvanced ''mortgage for a $450,000 house''
       = calculateMortgage ''mortgage for a $450,000 house''"
proof -
  have h: "length (extractNumbers ''mortgage for a $450,000 house'') < 2"
    by (simp add: extractNumbers_def match_here_def is_digit_def)
  from too_few_numbers_error_record [OF h] show ?thesis
    using h by simp
qed

section \<open>The basic mortgage quote\<close>





lemma calculateMortgage_quote:
  assumes "2 \<le> length (extractNumbers text)"
  shows "\<exists>q. calculateMortgage text = MortgageResult q
           \<and> propertyPrice q = extractNumbers text ! 0
           \<and> downPayment q = extractNumbers text ! 1
           \<and> loanAmount q = jsub (extractNumbers text ! 0) (extractNumbers text ! 1)
           \<and> interestRate q = rate_or_default (extractNumbers text)
           \<and> loanTermYears q = 30"
  using assms by (simp add: calculateMortgage_def Let_def)















section \<open>The interest rate and the zero-rate branch\<close>


















section \<open>The advanced mortgage figures\<close>





text \<open>
  The percentage the details report is rounded to two decimals after the comparison has
  been made on the unrounded value: a down payment of 19.996 percent is reported as 20
  and comes with a monthly PMI that is not zero.
\<close>

lemma numbers_just_below_20_percent:
  "extractNumbers ''mortgage for 100000 with 19996 down'' = [Fin 100000, Fin 19996]"
  by (simp add: number_eval)

lemma reported_percent_is_rounded:
  "\<exists>q. calculateMortgageAdvanced ''mortgage for 100000 with 19996 down''
          = AdvancedResult q (advanced_of q)
       \<and> downPaymentPercent (advanced_of q) = Fin 20
       \<and> monthlyPmi (advanced_of q) = Fin (3334 / 100)"
proof -
  have len: "2 \<le> length (extractNumbers ''mortgage for 100000 with 19996 down'')"
    by (simp add: numbers_just_below_20_percent)
  from calculateMortgage_quote [OF len] obtain q where
    q: "calculateMortgage ''mortgage for 100000 with 19996 down'' = MortgageResult q"
      "propertyPrice q = Fin 100000" "downPayment q = Fin 19996"
      "loanAmount q = jsub (Fin 100000) (Fin 19996)"
    by (auto simp: numbers_just_below_20_percent)
  have adv: "calculateMortgageAdvanced ''mortgage for 100000 with 19996 down''
               = AdvancedResult q (advanced_of q)"
    using q(1) by (simp add: calculateMortgageAdvanced_def)
  have pct: "downPaymentPercent (advanced_of q) = Fin 20"
    using q(2,3)
    by (simp add: advanced_of_def down_payment_percent_def Let_def round_cents_def norm64_def
        MAX_LIMIT_def MIN_LIMIT_def)
  have pmi: "monthlyPmi (advanced_of q) = Fin (3334 / 100)"
    using q(2,3,4)
    by (simp add: advanced_of_def pmi_amount_def down_payment_percent_def Let_def jsub_def
        round_cents_def norm64_def MAX_LIMIT_def MIN_LIMIT_def)
  from adv pct pmi show ?thesis by blast
qed

section \<open>The financial calculator\<close>








section \<open>The composer never raises\<close>








section \<open>The fallback reply\<close>











end
